theory Spec2Isabelle
  imports Main
begin

section \<open>Python values, JSON bodies and exceptions\<close>

text \<open>
  The SDK class \<open>SWCClient\<close> (file \<open>swc_client.py\<close>) is embedded function by function.
  Python values that travel as query parameters or live in the instance dictionary are
  values of \<open>pyval\<close>; a decoded JSON body is a value of \<open>json\<close>. Floating-point numbers
  are left out of both: no modelled operation computes with them.
\<close>

datatype pyval =
    PNone
  | PBool bool
  | PInt int
  | PStr string
  | PDict "(string \<times> pyval) list"
  | PMethod string

datatype json =
    JNull
  | JBool bool
  | JNum int
  | JStr string
  | JArray "json list"
  | JObject "(string \<times> json) list"

text \<open>
  Exceptions are values. \<open>RequestError\<close> and \<open>HTTPStatusError\<close> are the two httpx classes
  named in the source; \<open>HTTPStatusError\<close> carries the status code and the body text.
  \<open>JSONDecodeError\<close> is what \<open>response.json()\<close> raises on a body that is not JSON,
  \<open>ValidationError\<close> what a schema constructor raises on a mapping it rejects,
  \<open>TypeError\<close>, \<open>AttributeError\<close> and \<open>KeyError\<close> are the Python built-ins.
\<close>

datatype exn =
    RequestError string
  | HTTPStatusError int string
  | JSONDecodeError
  | ValidationError
  | TypeError
  | AttributeError string
  | KeyError string

datatype exn_class =
    CRequestError
  | CHTTPStatusError
  | CJSONDecodeError
  | CValidationError
  | CTypeError
  | CAttributeError
  | CKeyError

fun class_of :: "exn \<Rightarrow> exn_class" where
  "class_of (RequestError _) = CRequestError"
| "class_of (HTTPStatusError _ _) = CHTTPStatusError"
| "class_of JSONDecodeError = CJSONDecodeError"
| "class_of ValidationError = CValidationError"
| "class_of TypeError = CTypeError"
| "class_of (AttributeError _) = CAttributeError"
| "class_of (KeyError _) = CKeyError"

section \<open>The HTTP transport\<close>

text \<open>
  A response as the client reads it: the status code, the raw body and the result of
  \<open>response.json()\<close> (\<open>None\<close> when the body does not decode).
\<close>

record response =
  status_code :: int
  content :: string
  json_body :: "json option"

type_synonym params = "(string \<times> pyval) list"

record request =
  req_base_url :: string
  req_url :: string
  req_params :: "params option"
  req_follow_redirects :: bool

text \<open>
  What one GET comes to: no response at all (DNS, connection refused, timeout), or a
  response with whatever status the server chose. httpx raises \<open>RequestError\<close> in the
  first case and returns the response in the second; it raises \<open>HTTPStatusError\<close> only
  from \<open>raise_for_status()\<close>.
\<close>

datatype outcome = Failed string | Responded response

text \<open>
  The remote hosts are a parameter: a function from the requests received so far and the
  current request to an outcome. The state threaded through every call records the
  requests sent and the delays slept.
\<close>

type_synonym server = "request list \<Rightarrow> request \<Rightarrow> outcome"

record world =
  sent :: "request list"
  slept :: "nat list"

definition send :: "server \<Rightarrow> request \<Rightarrow> world \<Rightarrow> (exn + response) \<times> world" where
  "send serve req w =
     (case serve (sent w) req of
        Failed msg \<Rightarrow> (Inl (RequestError msg), w\<lparr>sent := sent w @ [req]\<rparr>)
      | Responded r \<Rightarrow> (Inr r, w\<lparr>sent := sent w @ [req]\<rparr>))"

section \<open>Configuration and construction\<close>

record SWCConfig =
  swc_base_url :: string
  swc_backoff :: bool
  swc_backoff_max :: int
  swc_bulk_file_format :: string

datatype wait_gen = Expo
datatype jitter = Random_jitter

text \<open>
  The keyword arguments of \<open>backoff.on_exception\<close> at lines 58-63; line 60 is the tuple
  of exception classes the decorator is asked to retry.
\<close>

record retry_policy =
  rp_wait_gen :: wait_gen
  rp_exception :: "exn_class list"
  rp_max_time :: pyval
  rp_jitter :: jitter

record SWCClient =
  self_swc_base_url :: string
  self_backoff :: bool
  self_backoff_max_time :: int
  self_bulk_file_format :: string
  self_BULK_FILE_NAMES :: "(string \<times> string) list"
  self_call_api :: "retry_policy option"

definition retry_exceptions :: "exn_class list" where
  "retry_exceptions = [CRequestError, CHTTPStatusError]"

definition HEALTH_CHECK_ENDPOINT :: string where "HEALTH_CHECK_ENDPOINT = ''/''"
definition LIST_LEAGUES_ENDPOINT :: string where "LIST_LEAGUES_ENDPOINT = ''/v0/leagues/''"
definition LIST_PLAYERS_ENDPOINT :: string where "LIST_PLAYERS_ENDPOINT = ''/v0/players/''"
definition LIST_PERFORMANCES_ENDPOINT :: string where
  "LIST_PERFORMANCES_ENDPOINT = ''/v0/performances/''"
definition LIST_TEAMS_ENDPOINT :: string where "LIST_TEAMS_ENDPOINT = ''/v0/teams/''"
definition GET_COUNTS_ENDPOINT :: string where "GET_COUNTS_ENDPOINT = ''/v0/counts/''"

definition BULK_FILE_BASE_URL :: string where
  "BULK_FILE_BASE_URL =
     ''https://raw.githubusercontent.com/christinesalim/api_portfolio_project/main/bulk/''"

text \<open>The dictionary literal of lines 49-55.\<close>

definition BULK_FILE_NAMES_initial :: "(string \<times> string) list" where
  "BULK_FILE_NAMES_initial =
     [(''players'', ''player_data''),
      (''leagues'', ''league_data''),
      (''performances'', ''performance_data''),
      (''teams'', ''team_data''),
      (''team_players'', ''team_player_data'')]"

text \<open>
  Attribute lookup on \<open>self\<close> while the constructor runs line 61: the instance dictionary
  holds what lines 44-55 have bound, the class dictionary the constants of lines 23-32
  and the methods. A name in neither raises \<open>AttributeError\<close>.
\<close>

definition instance_dict :: "SWCConfig \<Rightarrow> (string \<times> pyval) list" where
  "instance_dict input_config =
     [(''swc_base_url'', PStr (swc_base_url input_config)),
      (''backoff'', PBool (swc_backoff input_config)),
      (''backoff_max_time'', PInt (swc_backoff_max input_config)),
      (''bulk_file_format'', PStr (swc_bulk_file_format input_config)),
      (''BULK_FILE_NAMES'', PDict (map (\<lambda>(k, v). (k, PStr v)) BULK_FILE_NAMES_initial))]"

definition class_dict :: "(string \<times> pyval) list" where
  "class_dict =
     [(''HEALTH_CHECK_ENDPOINT'', PStr HEALTH_CHECK_ENDPOINT),
      (''LIST_LEAGUES_ENDPOINT'', PStr LIST_LEAGUES_ENDPOINT),
      (''LIST_PLAYERS_ENDPOINT'', PStr LIST_PLAYERS_ENDPOINT),
      (''LIST_PERFORMANCES_ENDPOINT'', PStr LIST_PERFORMANCES_ENDPOINT),
      (''LIST_TEAMS_ENDPOINT'', PStr LIST_TEAMS_ENDPOINT),
      (''GET_COUNTS_ENDPOINT'', PStr GET_COUNTS_ENDPOINT),
      (''BULK_FILE_BASE_URL'', PStr BULK_FILE_BASE_URL),
      (''__init__'', PMethod ''__init__''),
      (''call_api'', PMethod ''call_api''),
      (''get_health_check'', PMethod ''get_health_check''),
      (''list_leagues'', PMethod ''list_leagues''),
      (''get_league_by_id'', PMethod ''get_league_by_id''),
      (''get_counts'', PMethod ''get_counts''),
      (''list_teams'', PMethod ''list_teams''),
      (''get_player_by_id'', PMethod ''get_player_by_id''),
      (''list_performances'', PMethod ''list_performances''),
      (''get_bulk_player_file'', PMethod ''get_bulk_player_file''),
      (''get_bulk_league_file'', PMethod ''get_bulk_league_file''),
      (''get_bulk_performance_file'', PMethod ''get_bulk_performance_file''),
      (''get_bulk_team_file'', PMethod ''get_bulk_team_file''),
      (''get_bulk_team_player_file'', PMethod ''get_bulk_team_player_file'')]"

definition getattr_self :: "SWCConfig \<Rightarrow> string \<Rightarrow> exn + pyval" where
  "getattr_self input_config name =
     (case map_of (instance_dict input_config @ class_dict) name of
        None \<Rightarrow> Inl (AttributeError name)
      | Some v \<Rightarrow> Inr v)"

text \<open>
  \<open>str.lower()\<close> on the characters that matter for the comparison with \<open>"parquet"\<close>:
  the ASCII capitals map to their small letters, every other byte stays.
\<close>

definition lower_char :: "char \<Rightarrow> char" where
  "lower_char c =
     (let n = (of_char c :: nat)
      in if 65 \<le> n \<and> n \<le> 90 then char_of (n + 32) else c)"

definition lower :: "string \<Rightarrow> string" where
  "lower s = map lower_char s"

text \<open>
  The constructor. Python evaluates the keyword arguments of \<open>backoff.on_exception\<close>
  before the call, so the lookup of \<open>self.swc_backoff_max_time\<close> comes first and its
  exception leaves the constructor; lines 65-72 run only after that branch.
\<close>

definition SWCClient_init :: "SWCConfig \<Rightarrow> exn + SWCClient" where
  "SWCClient_init input_config =
     (case (if swc_backoff input_config
            then (case getattr_self input_config ''swc_backoff_max_time'' of
                    Inl e \<Rightarrow> Inl e
                  | Inr max_time \<Rightarrow>
                      Inr (Some \<lparr>rp_wait_gen = Expo,
                                 rp_exception = retry_exceptions,
                                 rp_max_time = max_time,
                                 rp_jitter = Random_jitter\<rparr>))
            else Inr None) of
        Inl e \<Rightarrow> Inl e
      | Inr wrapped \<Rightarrow>
          Inr \<lparr>self_swc_base_url = swc_base_url input_config,
               self_backoff = swc_backoff input_config,
               self_backoff_max_time = swc_backoff_max input_config,
               self_bulk_file_format = swc_bulk_file_format input_config,
               self_BULK_FILE_NAMES =
                 (if lower (swc_bulk_file_format input_config) = ''parquet''
                  then map (\<lambda>(key, value). (key, value @ ''.parquet'')) BULK_FILE_NAMES_initial
                  else map (\<lambda>(key, value). (key, value @ ''.csv'')) BULK_FILE_NAMES_initial),
               self_call_api = wrapped\<rparr>)"

section \<open>The call layer\<close>

text \<open>
  Lines 89-90: a dictionary that is truthy (not \<open>None\<close>, not empty) is rebuilt without
  the entries whose value is \<open>None\<close>; insertion order is kept.
\<close>

definition drop_none :: "params option \<Rightarrow> params option" where
  "drop_none api_params =
     (case api_params of
        None \<Rightarrow> None
      | Some ps \<Rightarrow>
          if ps = [] then Some ps
          else Some (filter (\<lambda>(key, val). val \<noteq> PNone) ps))"

text \<open>
  Lines 92-105. The two handlers log and re-raise, so an exception of the GET leaves
  \<open>call_api\<close> unchanged. The f-string of line 97 calls \<open>response.json()\<close> whatever the
  logging level, so a body that does not decode raises there. Nothing inspects the
  status code.
\<close>

text \<open>The GET of line 96, on a client whose base URL is \<open>self.swc_base_url\<close>.\<close>

definition api_request :: "SWCClient \<Rightarrow> string \<Rightarrow> params option \<Rightarrow> request" where
  "api_request self api_endpoint api_params =
     \<lparr>req_base_url = self_swc_base_url self,
      req_url = api_endpoint,
      req_params = api_params,
      req_follow_redirects = False\<rparr>"

definition call_api ::
  "server \<Rightarrow> SWCClient \<Rightarrow> string \<Rightarrow> params option \<Rightarrow> world \<Rightarrow> (exn + response) \<times> world" where
  "call_api serve self api_endpoint api_params w =
     (let api_params' = drop_none api_params;
          (r, w') = send serve (api_request self api_endpoint api_params') w
      in case r of
           Inl e \<Rightarrow> (Inl e, w')
         | Inr response \<Rightarrow>
             (case json_body response of
                None \<Rightarrow> (Inl JSONDecodeError, w')
              | Some _ \<Rightarrow> (Inr response, w')))"

text \<open>
  \<open>self.call_api\<close> as the methods see it: the plain method, or the method wrapped by the
  retry decorator when the constructor installed one. The decorator belongs to the
  third-party \<open>backoff\<close> package and is a parameter \<open>on_exception\<close> of the model.
\<close>

type_synonym api_call = "string \<Rightarrow> params option \<Rightarrow> world \<Rightarrow> (exn + response) \<times> world"

definition bound_call_api ::
  "(retry_policy \<Rightarrow> api_call \<Rightarrow> api_call) \<Rightarrow> server \<Rightarrow> SWCClient \<Rightarrow> api_call" where
  "bound_call_api on_exception serve self =
     (case self_call_api self of
        None \<Rightarrow> call_api serve self
      | Some policy \<Rightarrow> on_exception policy (call_api serve self))"

section \<open>Endpoint methods\<close>

text \<open>
  \<open>response.json()\<close>, and iteration over its result: a list yields its elements, a
  dictionary its keys, a string its characters; anything else is not iterable.
\<close>

definition response_json :: "response \<Rightarrow> exn + json" where
  "response_json response =
     (case json_body response of None \<Rightarrow> Inl JSONDecodeError | Some j \<Rightarrow> Inr j)"

fun iter_json :: "json \<Rightarrow> exn + json list" where
  "iter_json (JArray xs) = Inr xs"
| "iter_json (JObject kvs) = Inr (map (\<lambda>(k, v). JStr k) kvs)"
| "iter_json (JStr s) = Inr (map (\<lambda>c. JStr [c]) s)"
| "iter_json _ = Inl TypeError"

text \<open>
  Modelled from the spec: the module \<open>schemas\<close> (League, Team, Player, Performance,
  Counts) is not among the sources. A record type is a parameter \<open>schema\<close> that parses a
  mapping into a validated record or rejects it; rejection raises \<open>ValidationError\<close>
  (the spec's SchemaError). \<open>Cls(**x)\<close> on an \<open>x\<close> that is no mapping is a \<open>TypeError\<close>.
\<close>

definition construct :: "((string \<times> json) list \<Rightarrow> 'r option) \<Rightarrow> json \<Rightarrow> exn + 'r" where
  "construct schema j =
     (case j of
        JObject kvs \<Rightarrow> (case schema kvs of None \<Rightarrow> Inl ValidationError | Some r \<Rightarrow> Inr r)
      | _ \<Rightarrow> Inl TypeError)"

text \<open>A list comprehension: left to right, the first exception ends it.\<close>

fun comprehension :: "('a \<Rightarrow> exn + 'b) \<Rightarrow> 'a list \<Rightarrow> exn + 'b list" where
  "comprehension f [] = Inr []"
| "comprehension f (x # xs) =
     (case f x of
        Inl e \<Rightarrow> Inl e
      | Inr y \<Rightarrow> (case comprehension f xs of Inl e \<Rightarrow> Inl e | Inr ys \<Rightarrow> Inr (y # ys)))"

definition parse_list :: "((string \<times> json) list \<Rightarrow> 'r option) \<Rightarrow> response \<Rightarrow> exn + 'r list" where
  "parse_list schema response =
     (case response_json response of
        Inl e \<Rightarrow> Inl e
      | Inr j \<Rightarrow>
          (case iter_json j of
             Inl e \<Rightarrow> Inl e
           | Inr items \<Rightarrow> comprehension (construct schema) items))"

definition opt_str :: "string option \<Rightarrow> pyval" where
  "opt_str s = (case s of None \<Rightarrow> PNone | Some x \<Rightarrow> PStr x)"

definition opt_int :: "int option \<Rightarrow> pyval" where
  "opt_int i = (case i of None \<Rightarrow> PNone | Some x \<Rightarrow> PInt x)"

text \<open>
  Keyword arguments with a default: \<open>None\<close> for \<open>skip\<close> and \<open>limit\<close> is the argument left
  out (defaults 0 and 100); for the filters, whose default is Python's \<open>None\<close>, it is also
  the filter left out.
\<close>

definition default_arg :: "int \<Rightarrow> int option \<Rightarrow> int" where
  "default_arg d a = (case a of None \<Rightarrow> d | Some v \<Rightarrow> v)"

text \<open>The \<open>params\<close> dictionaries of lines 144-149, 209-215 and 260-264.\<close>

definition list_leagues_params ::
  "int option \<Rightarrow> int option \<Rightarrow> string option \<Rightarrow> string option \<Rightarrow> params" where
  "list_leagues_params skip limit minimum_last_changed_date league_name =
     [(''skip'', PInt (default_arg 0 skip)),
      (''limit'', PInt (default_arg 100 limit)),
      (''minimum_last_changed_date'', opt_str minimum_last_changed_date),
      (''league_name'', opt_str league_name)]"

definition list_teams_params ::
  "int option \<Rightarrow> int option \<Rightarrow> string option \<Rightarrow> string option \<Rightarrow> int option \<Rightarrow> params" where
  "list_teams_params skip limit minimum_last_changed_date team_name league_id =
     [(''skip'', PInt (default_arg 0 skip)),
      (''limit'', PInt (default_arg 100 limit)),
      (''minimum_last_changed_date'', opt_str minimum_last_changed_date),
      (''team_name'', opt_str team_name),
      (''league_id'', opt_int league_id)]"

definition list_performances_params ::
  "int option \<Rightarrow> int option \<Rightarrow> string option \<Rightarrow> params" where
  "list_performances_params skip limit minimum_last_changed_date =
     [(''skip'', PInt (default_arg 0 skip)),
      (''limit'', PInt (default_arg 100 limit)),
      (''minimum_last_changed_date'', opt_str minimum_last_changed_date)]"

definition list_leagues ::
  "(retry_policy \<Rightarrow> api_call \<Rightarrow> api_call) \<Rightarrow> ((string \<times> json) list \<Rightarrow> 'r option) \<Rightarrow> server \<Rightarrow>
   SWCClient \<Rightarrow> int option \<Rightarrow> int option \<Rightarrow> string option \<Rightarrow> string option \<Rightarrow> world \<Rightarrow>
   (exn + 'r list) \<times> world" where
  "list_leagues on_exception League serve self skip limit minimum_last_changed_date league_name w =
     (let params = list_leagues_params skip limit minimum_last_changed_date league_name;
          (r, w') = bound_call_api on_exception serve self LIST_LEAGUES_ENDPOINT (Some params) w
      in case r of
           Inl e \<Rightarrow> (Inl e, w')
         | Inr response \<Rightarrow> (parse_list League response, w'))"

definition list_teams ::
  "(retry_policy \<Rightarrow> api_call \<Rightarrow> api_call) \<Rightarrow> ((string \<times> json) list \<Rightarrow> 'r option) \<Rightarrow> server \<Rightarrow>
   SWCClient \<Rightarrow> int option \<Rightarrow> int option \<Rightarrow> string option \<Rightarrow> string option \<Rightarrow> int option \<Rightarrow>
   world \<Rightarrow> (exn + 'r list) \<times> world" where
  "list_teams on_exception Team serve self skip limit minimum_last_changed_date team_name
     league_id w =
     (let params = list_teams_params skip limit minimum_last_changed_date team_name league_id;
          (r, w') = bound_call_api on_exception serve self LIST_TEAMS_ENDPOINT (Some params) w
      in case r of
           Inl e \<Rightarrow> (Inl e, w')
         | Inr response \<Rightarrow> (parse_list Team response, w'))"

definition list_performances ::
  "(retry_policy \<Rightarrow> api_call \<Rightarrow> api_call) \<Rightarrow> ((string \<times> json) list \<Rightarrow> 'r option) \<Rightarrow> server \<Rightarrow>
   SWCClient \<Rightarrow> int option \<Rightarrow> int option \<Rightarrow> string option \<Rightarrow> world \<Rightarrow>
   (exn + 'r list) \<times> world" where
  "list_performances on_exception Performance serve self skip limit minimum_last_changed_date w =
     (let params = list_performances_params skip limit minimum_last_changed_date;
          (r, w') = bound_call_api on_exception serve self LIST_PERFORMANCES_ENDPOINT
                      (Some params) w
      in case r of
           Inl e \<Rightarrow> (Inl e, w')
         | Inr response \<Rightarrow> (parse_list Performance response, w'))"

text \<open>
  \<open>str\<close> of an integer, as the f-strings of lines 166 and 234 format the identifier:
  decimal digits, a minus sign for a negative number.
\<close>

definition digit_char :: "nat \<Rightarrow> char" where
  "digit_char n = char_of (48 + n)"

function str_nat :: "nat \<Rightarrow> string" where
  "str_nat n = (if n < 10 then [digit_char n] else str_nat (n div 10) @ [digit_char (n mod 10)])"
  by pat_completeness auto
termination
  by (relation "measure (\<lambda>n. n)") auto

declare str_nat.simps [simp del]

definition str_int :: "int \<Rightarrow> string" where
  "str_int i = (if i < 0 then CHR ''-'' # str_nat (nat (- i)) else str_nat (nat i))"

text \<open>\<open>Cls(**response.json())\<close>: the whole body is the mapping handed to the constructor.\<close>

definition parse_one :: "((string \<times> json) list \<Rightarrow> 'r option) \<Rightarrow> response \<Rightarrow> exn + 'r" where
  "parse_one schema response =
     (case response_json response of
        Inl e \<Rightarrow> Inl e
      | Inr j \<Rightarrow> construct schema j)"

definition get_health_check ::
  "(retry_policy \<Rightarrow> api_call \<Rightarrow> api_call) \<Rightarrow> server \<Rightarrow> SWCClient \<Rightarrow> world \<Rightarrow>
   (exn + response) \<times> world" where
  "get_health_check on_exception serve self w =
     (let endpoint_url = HEALTH_CHECK_ENDPOINT
      in bound_call_api on_exception serve self endpoint_url None w)"

definition get_league_by_id ::
  "(retry_policy \<Rightarrow> api_call \<Rightarrow> api_call) \<Rightarrow> ((string \<times> json) list \<Rightarrow> 'r option) \<Rightarrow> server \<Rightarrow>
   SWCClient \<Rightarrow> int \<Rightarrow> world \<Rightarrow> (exn + 'r) \<times> world" where
  "get_league_by_id on_exception League serve self league_id w =
     (let endpoint_url = LIST_LEAGUES_ENDPOINT @ str_int league_id;
          (r, w') = bound_call_api on_exception serve self endpoint_url None w
      in case r of
           Inl e \<Rightarrow> (Inl e, w')
         | Inr response \<Rightarrow> (parse_one League response, w'))"

definition get_counts ::
  "(retry_policy \<Rightarrow> api_call \<Rightarrow> api_call) \<Rightarrow> ((string \<times> json) list \<Rightarrow> 'r option) \<Rightarrow> server \<Rightarrow>
   SWCClient \<Rightarrow> world \<Rightarrow> (exn + 'r) \<times> world" where
  "get_counts on_exception Counts serve self w =
     (let (r, w') = bound_call_api on_exception serve self GET_COUNTS_ENDPOINT None w
      in case r of
           Inl e \<Rightarrow> (Inl e, w')
         | Inr response \<Rightarrow> (parse_one Counts response, w'))"

definition get_player_by_id ::
  "(retry_policy \<Rightarrow> api_call \<Rightarrow> api_call) \<Rightarrow> ((string \<times> json) list \<Rightarrow> 'r option) \<Rightarrow> server \<Rightarrow>
   SWCClient \<Rightarrow> int \<Rightarrow> world \<Rightarrow> (exn + 'r) \<times> world" where
  "get_player_by_id on_exception Player serve self playter_id w =
     (let endpoint_url = LIST_PLAYERS_ENDPOINT @ str_int playter_id;
          (r, w') = bound_call_api on_exception serve self endpoint_url None w
      in case r of
           Inl e \<Rightarrow> (Inl e, w')
         | Inr response \<Rightarrow> (parse_one Player response, w'))"

section \<open>Bulk file methods\<close>

definition dict_get :: "(string \<times> 'v) list \<Rightarrow> string \<Rightarrow> exn + 'v" where
  "dict_get d key = (case map_of d key of None \<Rightarrow> Inl (KeyError key) | Some v \<Rightarrow> Inr v)"

text \<open>\<open>httpx.get(url, follow_redirects=True)\<close>: a GET outside the call layer.\<close>

definition httpx_get :: "server \<Rightarrow> string \<Rightarrow> world \<Rightarrow> (exn + response) \<times> world" where
  "httpx_get serve url w =
     send serve \<lparr>req_base_url = [], req_url = url, req_params = None,
                 req_follow_redirects = True\<rparr> w"

text \<open>
  Each method returns the body on status 200 and falls off its end otherwise, which in
  Python returns \<open>None\<close>.
\<close>

definition get_bulk_player_file ::
  "server \<Rightarrow> SWCClient \<Rightarrow> world \<Rightarrow> (exn + string option) \<times> world" where
  "get_bulk_player_file serve self w =
     (case dict_get (self_BULK_FILE_NAMES self) ''players'' of
        Inl e \<Rightarrow> (Inl e, w)
      | Inr name \<Rightarrow>
          (let (r, w') = httpx_get serve (BULK_FILE_BASE_URL @ name) w
           in case r of
                Inl e \<Rightarrow> (Inl e, w')
              | Inr response \<Rightarrow>
                  (Inr (if status_code response = 200 then Some (content response) else None),
                   w')))"

definition get_bulk_league_file ::
  "server \<Rightarrow> SWCClient \<Rightarrow> world \<Rightarrow> (exn + string option) \<times> world" where
  "get_bulk_league_file serve self w =
     (case dict_get (self_BULK_FILE_NAMES self) ''leagues'' of
        Inl e \<Rightarrow> (Inl e, w)
      | Inr name \<Rightarrow>
          (let (r, w') = httpx_get serve (BULK_FILE_BASE_URL @ name) w
           in case r of
                Inl e \<Rightarrow> (Inl e, w')
              | Inr response \<Rightarrow>
                  (Inr (if status_code response = 200 then Some (content response) else None),
                   w')))"

definition get_bulk_performance_file ::
  "server \<Rightarrow> SWCClient \<Rightarrow> world \<Rightarrow> (exn + string option) \<times> world" where
  "get_bulk_performance_file serve self w =
     (case dict_get (self_BULK_FILE_NAMES self) ''performances'' of
        Inl e \<Rightarrow> (Inl e, w)
      | Inr name \<Rightarrow>
          (let (r, w') = httpx_get serve (BULK_FILE_BASE_URL @ name) w
           in case r of
                Inl e \<Rightarrow> (Inl e, w')
              | Inr response \<Rightarrow>
                  (Inr (if status_code response = 200 then Some (content response) else None),
                   w')))"

definition get_bulk_team_file ::
  "server \<Rightarrow> SWCClient \<Rightarrow> world \<Rightarrow> (exn + string option) \<times> world" where
  "get_bulk_team_file serve self w =
     (case dict_get (self_BULK_FILE_NAMES self) ''teams'' of
        Inl e \<Rightarrow> (Inl e, w)
      | Inr name \<Rightarrow>
          (let (r, w') = httpx_get serve (BULK_FILE_BASE_URL @ name) w
           in case r of
                Inl e \<Rightarrow> (Inl e, w')
              | Inr response \<Rightarrow>
                  (Inr (if status_code response = 200 then Some (content response) else None),
                   w')))"

definition get_bulk_team_player_file ::
  "server \<Rightarrow> SWCClient \<Rightarrow> world \<Rightarrow> (exn + string option) \<times> world" where
  "get_bulk_team_player_file serve self w =
     (case dict_get (self_BULK_FILE_NAMES self) ''team_players'' of
        Inl e \<Rightarrow> (Inl e, w)
      | Inr name \<Rightarrow>
          (let (r, w') = httpx_get serve (BULK_FILE_BASE_URL @ name) w
           in case r of
                Inl e \<Rightarrow> (Inl e, w')
              | Inr response \<Rightarrow>
                  (Inr (if status_code response = 200 then Some (content response) else None),
                   w')))"

section \<open>Properties of the result of a list method\<close>

text \<open>
  One record per array element, in the array's order: element \<open>i\<close> is a mapping that the
  schema parses into record \<open>i\<close>.
\<close>

definition one_record_per_element ::
  "((string \<times> json) list \<Rightarrow> 'r option) \<Rightarrow> json list \<Rightarrow> 'r list \<Rightarrow> bool" where
  "one_record_per_element schema items records \<longleftrightarrow>
     length records = length items \<and>
     (\<forall>i < length items. \<exists>kvs. items ! i = JObject kvs \<and> schema kvs = Some (records ! i))"

text \<open>
  A validation failure while a body is mapped into records. For a list method: the
  iteration over the body reaches a mapping that the schema rejects, every element
  before it having been parsed. For a single-record method: the body is a mapping that
  the schema rejects.
\<close>

definition list_rejected :: "((string \<times> json) list \<Rightarrow> 'r option) \<Rightarrow> response \<Rightarrow> bool" where
  "list_rejected schema resp \<longleftrightarrow>
     (\<exists>j items pre kvs rest.
        json_body resp = Some j \<and> iter_json j = Inr items \<and>
        items = pre @ JObject kvs # rest \<and>
        (\<forall>x \<in> set pre. \<exists>kvs' r. x = JObject kvs' \<and> schema kvs' = Some r) \<and>
        schema kvs = None)"

definition one_rejected :: "((string \<times> json) list \<Rightarrow> 'r option) \<Rightarrow> response \<Rightarrow> bool" where
  "one_rejected schema resp \<longleftrightarrow>
     (\<exists>kvs. json_body resp = Some (JObject kvs) \<and> schema kvs = None)"

text \<open>
  What the mapping step of a method does once \<open>self.call_api\<close> has returned: the world
  stays the one that call left, \<open>ValidationError\<close> is raised exactly on a validation
  failure, and no exception raised there is of a class the retry tuple names.
\<close>

definition raised_outside_retry ::
  "(exn + 'a) \<times> world \<Rightarrow> (exn + response) \<times> world \<Rightarrow> bool \<Rightarrow> bool" where
  "raised_outside_retry result call rejected \<longleftrightarrow>
     snd result = snd call \<and>
     (fst result = Inl ValidationError \<longleftrightarrow> rejected) \<and>
     (\<forall>e. fst result = Inl e \<longrightarrow> class_of e \<notin> set retry_exceptions)"

text \<open>
  The strings that read \<open>parquet\<close> when case is ignored: seven characters, each the small
  or the capital form of the letter at its position.
\<close>

definition parquet_ignoring_case :: "string \<Rightarrow> bool" where
  "parquet_ignoring_case s \<longleftrightarrow>
     list_all2 (\<lambda>c (small, capital). c = small \<or> c = capital) s
       [(CHR ''p'', CHR ''P''), (CHR ''a'', CHR ''A''), (CHR ''r'', CHR ''R''),
        (CHR ''q'', CHR ''Q''), (CHR ''u'', CHR ''U''), (CHR ''e'', CHR ''E''),
        (CHR ''t'', CHR ''T'')]"

section \<open>Concrete configurations, servers and schemas\<close>

definition config_backoff :: SWCConfig where
  "config_backoff =
     \<lparr>swc_base_url = ''http://0.0.0.0:8000'', swc_backoff = True,
      swc_backoff_max = 30, swc_bulk_file_format = ''csv''\<rparr>"

definition config_plain :: SWCConfig where
  "config_plain =
     \<lparr>swc_base_url = ''http://0.0.0.0:8000'', swc_backoff = False,
      swc_backoff_max = 30, swc_bulk_file_format = ''csv''\<rparr>"

definition config_parquet :: SWCConfig where
  "config_parquet =
     \<lparr>swc_base_url = ''http://0.0.0.0:8000'', swc_backoff = False,
      swc_backoff_max = 30, swc_bulk_file_format = ''PaRqUeT''\<rparr>"

definition config_json :: SWCConfig where
  "config_json =
     \<lparr>swc_base_url = ''http://0.0.0.0:8000'', swc_backoff = False,
      swc_backoff_max = 30, swc_bulk_file_format = ''json''\<rparr>"

definition client_plain :: SWCClient where
  "client_plain =
     \<lparr>self_swc_base_url = ''http://0.0.0.0:8000'',
      self_backoff = False,
      self_backoff_max_time = 30,
      self_bulk_file_format = ''csv'',
      self_BULK_FILE_NAMES =
        [(''players'', ''player_data.csv''),
         (''leagues'', ''league_data.csv''),
         (''performances'', ''performance_data.csv''),
         (''teams'', ''team_data.csv''),
         (''team_players'', ''team_player_data.csv'')],
      self_call_api = None\<rparr>"

text \<open>
  A client object on which a retry decorator is installed, and a decorator that calls
  again once, after a sleep, when the exception is of a class in the policy.
\<close>

definition client_retrying :: SWCClient where
  "client_retrying =
     client_plain
       \<lparr>self_backoff := True,
        self_call_api :=
          Some \<lparr>rp_wait_gen = Expo, rp_exception = retry_exceptions,
                rp_max_time = PInt 30, rp_jitter = Random_jitter\<rparr>\<rparr>"

definition retry_once :: "retry_policy \<Rightarrow> api_call \<Rightarrow> api_call" where
  "retry_once policy target api_endpoint api_params w =
     (case target api_endpoint api_params w of
        (Inl e, w') \<Rightarrow>
          if class_of e \<in> set (rp_exception policy)
          then target api_endpoint api_params (w'\<lparr>slept := slept w' @ [1]\<rparr>)
          else (Inl e, w')
      | (Inr response, w') \<Rightarrow> (Inr response, w'))"

definition world0 :: world where
  "world0 = \<lparr>sent = [], slept = []\<rparr>"

definition response_404 :: response where
  "response_404 = \<lparr>status_code = 404, content = ''{}'', json_body = Some (JObject [])\<rparr>"

definition server_404 :: server where
  "server_404 history req = Responded response_404"

definition server_down :: server where
  "server_down history req = Failed ''connection refused''"

definition response_file :: response where
  "response_file = \<lparr>status_code = 200, content = ''a,b'', json_body = None\<rparr>"

definition server_file :: server where
  "server_file history req = Responded response_file"

definition response_two_leagues :: response where
  "response_two_leagues =
     \<lparr>status_code = 200, content = ''[..]'',
      json_body = Some (JArray [JObject [(''league_id'', JNum 5002)],
                                JObject [(''league_id'', JNum 5001)]])\<rparr>"

definition server_two_leagues :: server where
  "server_two_leagues history req = Responded response_two_leagues"

definition response_bad_league :: response where
  "response_bad_league =
     \<lparr>status_code = 200, content = ''[..]'',
      json_body = Some (JArray [JObject [(''league_id'', JNum 5002)],
                                JObject [(''name'', JStr ''x'')],
                                JNum 5])\<rparr>"

definition server_bad_league :: server where
  "server_bad_league history req = Responded response_bad_league"

definition response_bad_object :: response where
  "response_bad_object =
     \<lparr>status_code = 200, content = ''{..}'',
      json_body = Some (JObject [(''name'', JStr ''x'')])\<rparr>"

definition server_bad_object :: server where
  "server_bad_object history req = Responded response_bad_object"

definition config_PARQUET :: SWCConfig where
  "config_PARQUET =
     \<lparr>swc_base_url = ''http://0.0.0.0:8000'', swc_backoff = False,
      swc_backoff_max = 30, swc_bulk_file_format = ''PARQUET''\<rparr>"

text \<open>A schema with one required integer field.\<close>

definition id_schema :: "(string \<times> json) list \<Rightarrow> int option" where
  "id_schema kvs = (case map_of kvs ''league_id'' of Some (JNum n) \<Rightarrow> Some n | _ \<Rightarrow> None)"

definition sample_params :: params where
  "sample_params =
     [(''skip'', PInt 0), (''limit'', PInt 100),
      (''minimum_last_changed_date'', PNone), (''league_name'', PStr [])]"

text \<open>
  The step from world \<open>w\<close> to world \<open>w'\<close> is one GET of \<open>url\<close> on the API host \<open>base\<close>, with
  \<open>skip\<close> and \<open>limit\<close> in its query.
\<close>

definition one_paged_request :: "world \<Rightarrow> world \<Rightarrow> string \<Rightarrow> string \<Rightarrow> int \<Rightarrow> int \<Rightarrow> bool" where
  "one_paged_request w w' base url skip limit \<longleftrightarrow>
     (\<exists>q. sent w' = sent w @ [\<lparr>req_base_url = base, req_url = url, req_params = Some q,
                                req_follow_redirects = False\<rparr>] \<and>
          map_of q ''skip'' = Some (PInt skip) \<and>
          map_of q ''limit'' = Some (PInt limit))"

text \<open>What a bulk method hands back for a response: the body on 200, \<open>None\<close> otherwise.\<close>

definition body_if_200 :: "response \<Rightarrow> string option" where
  "body_if_200 resp = (if status_code resp = 200 then Some (content resp) else None)"

section \<open>Construction\<close>

lemma getattr_swc_backoff_max_time:
  "getattr_self input_config ''swc_backoff_max_time'' =
     Inl (AttributeError ''swc_backoff_max_time'')"
  by (simp add: getattr_self_def instance_dict_def class_dict_def)

lemma init_backoff_raises:
  "swc_backoff input_config \<Longrightarrow>
   SWCClient_init input_config = Inl (AttributeError ''swc_backoff_max_time'')"
  by (simp add: SWCClient_init_def getattr_swc_backoff_max_time)

lemma init_plain:
  "\<not> swc_backoff input_config \<Longrightarrow>
   SWCClient_init input_config =
     Inr \<lparr>self_swc_base_url = swc_base_url input_config,
          self_backoff = False,
          self_backoff_max_time = swc_backoff_max input_config,
          self_bulk_file_format = swc_bulk_file_format input_config,
          self_BULK_FILE_NAMES =
            (if lower (swc_bulk_file_format input_config) = ''parquet''
             then map (\<lambda>(key, value). (key, value @ ''.parquet'')) BULK_FILE_NAMES_initial
             else map (\<lambda>(key, value). (key, value @ ''.csv'')) BULK_FILE_NAMES_initial),
          self_call_api = None\<rparr>"
  by (simp add: SWCClient_init_def)

lemma init_Inr_no_backoff:
  assumes "SWCClient_init input_config = Inr self"
  shows "\<not> swc_backoff input_config"
  using assms init_backoff_raises by fastforce

lemma init_Inr_fields:
  assumes "SWCClient_init input_config = Inr self"
  shows "self_call_api self = None"
    and "self_swc_base_url self = swc_base_url input_config"
    and "self_BULK_FILE_NAMES self =
           (if lower (swc_bulk_file_format input_config) = ''parquet''
            then map (\<lambda>(key, value). (key, value @ ''.parquet'')) BULK_FILE_NAMES_initial
            else map (\<lambda>(key, value). (key, value @ ''.csv'')) BULK_FILE_NAMES_initial)"
proof -
  have eq: "self = \<lparr>self_swc_base_url = swc_base_url input_config,
          self_backoff = False,
          self_backoff_max_time = swc_backoff_max input_config,
          self_bulk_file_format = swc_bulk_file_format input_config,
          self_BULK_FILE_NAMES =
            (if lower (swc_bulk_file_format input_config) = ''parquet''
             then map (\<lambda>(key, value). (key, value @ ''.parquet'')) BULK_FILE_NAMES_initial
             else map (\<lambda>(key, value). (key, value @ ''.csv'')) BULK_FILE_NAMES_initial),
          self_call_api = None\<rparr>"
    using init_plain [OF init_Inr_no_backoff [OF assms]] assms by simp
  show "self_call_api self = None" by (subst eq) simp
  show "self_swc_base_url self = swc_base_url input_config" by (subst eq) simp
  show "self_BULK_FILE_NAMES self =
           (if lower (swc_bulk_file_format input_config) = ''parquet''
            then map (\<lambda>(key, value). (key, value @ ''.parquet'')) BULK_FILE_NAMES_initial
            else map (\<lambda>(key, value). (key, value @ ''.csv'')) BULK_FILE_NAMES_initial)"
    by (subst eq) simp
qed

lemma lower_csv: "lower ''csv'' \<noteq> ''parquet''"
  by (simp add: lower_def)

lemma lower_json: "lower ''json'' \<noteq> ''parquet''"
  by (simp add: lower_def)

lemma lower_PaRqUeT: "lower ''PaRqUeT'' = ''parquet''"
  by code_simp

lemma init_config_plain: "SWCClient_init config_plain = Inr client_plain"
  by (simp add: init_plain config_plain_def client_plain_def lower_csv
        BULK_FILE_NAMES_initial_def)

text \<open>
  C1 (the defect). With backoff enabled the constructor reads \<open>self.swc_backoff_max_time\<close>,
  an attribute that was never bound (line 46 binds \<open>backoff_max_time\<close>), and raises
  \<open>AttributeError\<close>: no client exists on which a call could be retried.
\<close>

theorem init_with_backoff_enabled_fails:
  "SWCClient_init config_backoff = Inl (AttributeError ''swc_backoff_max_time'')"
  by (simp add: init_backoff_raises config_backoff_def)

section \<open>The call layer\<close>

lemma send_eq:
  "send serve req w =
     ((case serve (sent w) req of Failed msg \<Rightarrow> Inl (RequestError msg) | Responded r \<Rightarrow> Inr r),
      w\<lparr>sent := sent w @ [req]\<rparr>)"
  by (simp add: send_def split: outcome.splits)

lemma call_api_eq:
  "call_api serve self api_endpoint api_params w =
     ((case serve (sent w) (api_request self api_endpoint (drop_none api_params)) of
         Failed msg \<Rightarrow> Inl (RequestError msg)
       | Responded r \<Rightarrow>
           (case json_body r of None \<Rightarrow> Inl JSONDecodeError | Some j \<Rightarrow> Inr r)),
      w\<lparr>sent := sent w @ [api_request self api_endpoint (drop_none api_params)]\<rparr>)"
  by (simp add: call_api_def send_eq split: outcome.splits option.splits)

lemma bound_call_api_plain:
  "self_call_api self = None \<Longrightarrow> bound_call_api on_exception serve self = call_api serve self"
  by (simp add: bound_call_api_def)

lemma drop_none_Some:
  "drop_none (Some ps) = Some (filter (\<lambda>(key, val). val \<noteq> PNone) ps)"
  by (simp add: drop_none_def)

text \<open>
  C2 (the defect). A server that answers 404 gets its response handed back by
  \<open>call_api\<close> as an ordinary return value: no \<open>HTTPStatusError\<close> is raised, since nothing
  calls \<open>raise_for_status()\<close> and the handler of line 99 is never entered.
\<close>

theorem call_api_returns_error_status_response:
  "SWCClient_init config_plain = Inr client_plain \<and>
   status_code response_404 = 404 \<and>
   fst (call_api server_404 client_plain ''/v0/leagues/9999'' None world0) = Inr response_404"
  by (simp add: init_config_plain call_api_eq server_404_def response_404_def)

text \<open>
  C3. Whatever mapping is passed to \<open>call_api\<close>, exactly one request is sent, and every
  entry of its query comes from the mapping with a value that is not \<open>None\<close>.
\<close>

theorem call_api_never_sends_None:
  "\<exists>req. sent (snd (call_api serve self api_endpoint api_params w)) = sent w @ [req] \<and>
     (\<forall>q key val. req_params req = Some q \<longrightarrow> (key, val) \<in> set q \<longrightarrow>
        val \<noteq> PNone \<and> (\<exists>ps. api_params = Some ps \<and> (key, val) \<in> set ps))"
proof -
  let ?req = "api_request self api_endpoint (drop_none api_params)"
  have "sent (snd (call_api serve self api_endpoint api_params w)) = sent w @ [?req]"
    by (simp add: call_api_eq)
  moreover have "\<forall>q key val. req_params ?req = Some q \<longrightarrow> (key, val) \<in> set q \<longrightarrow>
        val \<noteq> PNone \<and> (\<exists>ps. api_params = Some ps \<and> (key, val) \<in> set ps)"
    by (cases api_params) (auto simp: api_request_def drop_none_def split: if_splits)
  ultimately show ?thesis by blast
qed

theorem call_api_never_sends_None_witness:
  "\<exists>req. sent (snd (call_api server_404 client_plain LIST_LEAGUES_ENDPOINT
                      (Some sample_params) world0)) = sent world0 @ [req] \<and>
     req_params req = Some [(''skip'', PInt 0), (''limit'', PInt 100), (''league_name'', PStr [])] \<and>
     (\<forall>q key val. req_params req = Some q \<longrightarrow> (key, val) \<in> set q \<longrightarrow>
        val \<noteq> PNone \<and> (\<exists>ps. Some sample_params = Some ps \<and> (key, val) \<in> set ps))"
proof -
  from call_api_never_sends_None
         [of server_404 client_plain LIST_LEAGUES_ENDPOINT "Some sample_params" world0]
  obtain req where
    s: "sent (snd (call_api server_404 client_plain LIST_LEAGUES_ENDPOINT
                     (Some sample_params) world0)) = sent world0 @ [req]" and
    p: "\<forall>q key val. req_params req = Some q \<longrightarrow> (key, val) \<in> set q \<longrightarrow>
        val \<noteq> PNone \<and> (\<exists>ps. Some sample_params = Some ps \<and> (key, val) \<in> set ps)"
    by blast
  from s have "req = api_request client_plain LIST_LEAGUES_ENDPOINT (drop_none (Some sample_params))"
    by (simp add: call_api_eq)
  then have "req_params req =
      Some [(''skip'', PInt 0), (''limit'', PInt 100), (''league_name'', PStr [])]"
    by (simp add: api_request_def drop_none_def sample_params_def)
  with s p show ?thesis by blast
qed

text \<open>
  C9. Sanitisation removes the entries whose value is \<open>None\<close> and no other: an entry is in
  the query that is sent exactly when it is in the mapping with a value other than \<open>None\<close>,
  so \<open>0\<close>, \<open>False\<close> and the empty string are sent.
\<close>

theorem call_api_keeps_falsy_values:
  "\<exists>req q. sent (snd (call_api serve self api_endpoint (Some ps) w)) = sent w @ [req] \<and>
     req_params req = Some q \<and>
     (\<forall>key val. (key, val) \<in> set q \<longleftrightarrow> (key, val) \<in> set ps \<and> val \<noteq> PNone)"
proof -
  let ?q = "filter (\<lambda>(key, val). val \<noteq> PNone) ps"
  let ?req = "api_request self api_endpoint (Some ?q)"
  have "sent (snd (call_api serve self api_endpoint (Some ps) w)) = sent w @ [?req]"
    by (simp add: call_api_eq drop_none_Some)
  moreover have "req_params ?req = Some ?q"
    by (simp add: api_request_def)
  moreover have "\<forall>key val. (key, val) \<in> set ?q \<longleftrightarrow> (key, val) \<in> set ps \<and> val \<noteq> PNone"
    by auto
  ultimately show ?thesis by blast
qed

theorem call_api_keeps_falsy_values_witness:
  "\<exists>req q. sent (snd (call_api server_404 client_plain LIST_LEAGUES_ENDPOINT
                        (Some sample_params) world0)) = sent world0 @ [req] \<and>
     req_params req = Some q \<and>
     (''skip'', PInt 0) \<in> set q \<and> (''league_name'', PStr []) \<in> set q \<and>
     (''minimum_last_changed_date'', PNone) \<notin> set q"
proof -
  from call_api_keeps_falsy_values
         [of server_404 client_plain LIST_LEAGUES_ENDPOINT sample_params world0]
  obtain req q where
    s: "sent (snd (call_api server_404 client_plain LIST_LEAGUES_ENDPOINT
                     (Some sample_params) world0)) = sent world0 @ [req]" and
    p: "req_params req = Some q" and
    m: "\<forall>key val. (key, val) \<in> set q \<longleftrightarrow> (key, val) \<in> set sample_params \<and> val \<noteq> PNone"
    by blast
  from m have "(''skip'', PInt 0) \<in> set q" "(''league_name'', PStr []) \<in> set q"
    "(''minimum_last_changed_date'', PNone) \<notin> set q"
    by (simp_all add: sample_params_def)
  with s p show ?thesis by blast
qed

lemma plain_client_single_attempt:
  assumes "\<not> swc_backoff input_config"
  shows "\<exists>self req r w'.
     SWCClient_init input_config = Inr self \<and>
     bound_call_api on_exception serve self api_endpoint api_params w = (r, w') \<and>
     sent w' = sent w @ [req] \<and> slept w' = slept w \<and>
     (\<forall>msg. serve (sent w) req = Failed msg \<longrightarrow> r = Inl (RequestError msg)) \<and>
     (\<forall>resp. serve (sent w) req = Responded resp \<longrightarrow>
        (json_body resp \<noteq> None \<longrightarrow> r = Inr resp) \<and>
        (json_body resp = None \<longrightarrow> r = Inl JSONDecodeError))"
proof -
  obtain self where init: "SWCClient_init input_config = Inr self"
    using init_plain [OF assms] by blast
  let ?req = "api_request self api_endpoint (drop_none api_params)"
  let ?call = "bound_call_api on_exception serve self api_endpoint api_params w"
  have call: "?call = call_api serve self api_endpoint api_params w"
    by (simp add: bound_call_api_plain init_Inr_fields(1) [OF init])
  have "sent (snd ?call) = sent w @ [?req]" "slept (snd ?call) = slept w"
    by (simp_all add: call call_api_eq)
  moreover have "\<forall>msg. serve (sent w) ?req = Failed msg \<longrightarrow> fst ?call = Inl (RequestError msg)"
    by (simp add: call call_api_eq)
  moreover have "\<forall>resp. serve (sent w) ?req = Responded resp \<longrightarrow>
        (json_body resp \<noteq> None \<longrightarrow> fst ?call = Inr resp) \<and>
        (json_body resp = None \<longrightarrow> fst ?call = Inl JSONDecodeError)"
    by (auto simp: call call_api_eq)
  ultimately show ?thesis
    using init by (intro exI [of _ self] exI [of _ ?req] exI [of _ "fst ?call"]
        exI [of _ "snd ?call"]) simp
qed

text \<open>
  C4 (the defect). With backoff disabled a call makes one attempt and sleeps nothing,
  and a transport failure reaches the caller as \<open>RequestError\<close>. An HTTP error status does
  not: the health check against a server that answers 404 returns that response as
  its value, where the claim has the error status propagate as a failure.
\<close>

theorem no_backoff_error_status_is_returned:
  "\<not> swc_backoff config_plain \<and>
   SWCClient_init config_plain = Inr client_plain \<and>
   status_code response_404 = 404 \<and>
   get_health_check retry_once server_404 client_plain world0 =
     (Inr response_404,
      \<lparr>sent = [api_request client_plain HEALTH_CHECK_ENDPOINT None], slept = []\<rparr>)"
proof -
  have "\<not> swc_backoff config_plain" by (simp add: config_plain_def)
  moreover have "status_code response_404 = 404" by (simp add: response_404_def)
  moreover have "get_health_check retry_once server_404 client_plain world0 =
     (Inr response_404,
      \<lparr>sent = [api_request client_plain HEALTH_CHECK_ENDPOINT None], slept = []\<rparr>)"
    by (simp add: get_health_check_def bound_call_api_def client_plain_def call_api_eq
          drop_none_def server_404_def response_404_def world0_def)
  ultimately show ?thesis using init_config_plain by blast
qed

section \<open>List methods\<close>

lemma comprehension_Inr_iff:
  "comprehension f xs = Inr ys \<longleftrightarrow> list_all2 (\<lambda>x y. f x = Inr y) xs ys"
proof (induction xs arbitrary: ys)
  case Nil
  show ?case by auto
next
  case (Cons x xs)
  show ?case
  proof (cases "f x")
    case (Inl e)
    then show ?thesis by (auto simp: list_all2_Cons1)
  next
    case head: (Inr y)
    show ?thesis
    proof (cases "comprehension f xs")
      case (Inl e)
      have "\<not> list_all2 (\<lambda>x y. f x = Inr y) xs zs" for zs
        using Cons.IH [of zs] Inl by simp
      with head Inl show ?thesis by (auto simp: list_all2_Cons1)
    next
      case tail: (Inr ys')
      have "list_all2 (\<lambda>x y. f x = Inr y) xs zs \<longleftrightarrow> zs = ys'" for zs
        using Cons.IH [of zs] tail by auto
      with head tail show ?thesis by (auto simp: list_all2_Cons1)
    qed
  qed
qed

lemma construct_Inr_iff:
  "construct schema x = Inr r \<longleftrightarrow> (\<exists>kvs. x = JObject kvs \<and> schema kvs = Some r)"
  by (cases x) (auto simp: construct_def split: option.splits)

lemma comprehension_construct_iff:
  "comprehension (construct schema) items = Inr records \<longleftrightarrow>
     one_record_per_element schema items records"
  unfolding comprehension_Inr_iff one_record_per_element_def list_all2_conv_all_nth
    construct_Inr_iff
  by auto

lemma construct_ValidationError_iff:
  "construct schema x = Inl ValidationError \<longleftrightarrow> (\<exists>kvs. x = JObject kvs \<and> schema kvs = None)"
  by (cases x) (auto simp: construct_def split: option.splits)

lemma construct_Inl_cases:
  "construct schema x = Inl e \<Longrightarrow> e = TypeError \<or> e = ValidationError"
  by (cases x) (auto simp: construct_def split: option.splits)

lemma comprehension_Inl_cases:
  "comprehension (construct schema) items = Inl e \<Longrightarrow> e = TypeError \<or> e = ValidationError"
proof (induction items)
  case Nil
  then show ?case by simp
next
  case (Cons x xs)
  show ?case
  proof (cases "construct schema x")
    case (Inl e')
    with Cons.prems have "e' = e" by simp
    with Inl show ?thesis by (auto dest: construct_Inl_cases)
  next
    case (Inr y)
    with Cons.prems have "comprehension (construct schema) xs = Inl e"
      by (simp split: sum.splits)
    then show ?thesis by (rule Cons.IH)
  qed
qed

lemma comprehension_ValidationError_iff:
  "comprehension (construct schema) items = Inl ValidationError \<longleftrightarrow>
     (\<exists>pre kvs rest.
        items = pre @ JObject kvs # rest \<and>
        (\<forall>x \<in> set pre. \<exists>kvs' r. x = JObject kvs' \<and> schema kvs' = Some r) \<and>
        schema kvs = None)"
  (is "?lhs items \<longleftrightarrow> ?rhs items")
proof (induction items)
  case Nil
  show ?case by simp
next
  case (Cons x xs)
  show ?case
  proof (cases "construct schema x")
    case (Inl e)
    then have lhs: "comprehension (construct schema) (x # xs) = Inl e" by simp
    show ?thesis
    proof
      assume "?lhs (x # xs)"
      with lhs have "e = ValidationError" by simp
      with Inl obtain kvs where "x = JObject kvs" "schema kvs = None"
        by (auto simp: construct_ValidationError_iff)
      then have "x # xs = [] @ JObject kvs # xs \<and>
          (\<forall>x \<in> set []. \<exists>kvs' r. x = JObject kvs' \<and> schema kvs' = Some r) \<and> schema kvs = None"
        by simp
      then show "?rhs (x # xs)" by blast
    next
      assume "?rhs (x # xs)"
      then obtain pre kvs rest where
        eq: "x # xs = pre @ JObject kvs # rest" and
        ok: "\<forall>x \<in> set pre. \<exists>kvs' r. x = JObject kvs' \<and> schema kvs' = Some r" and
        no: "schema kvs = None"
        by blast
      show "?lhs (x # xs)"
      proof (cases pre)
        case Nil
        with eq have "x = JObject kvs" by simp
        with no have "construct schema x = Inl ValidationError"
          by (simp add: construct_ValidationError_iff)
        then show ?thesis by simp
      next
        case (Cons p ps)
        with eq have "x \<in> set pre" by simp
        with ok obtain kvs' r where "x = JObject kvs'" "schema kvs' = Some r" by blast
        then have "construct schema x = Inr r" by (simp add: construct_Inr_iff)
        with Inl show ?thesis by simp
      qed
    qed
  next
    case (Inr y)
    then have step: "?lhs (x # xs) \<longleftrightarrow> ?lhs xs" by (simp split: sum.splits)
    from Inr obtain kx where x: "x = JObject kx" "schema kx = Some y"
      by (auto simp: construct_Inr_iff)
    have "?rhs (x # xs) \<longleftrightarrow> ?rhs xs"
    proof
      assume "?rhs (x # xs)"
      then obtain pre kvs rest where
        eq: "x # xs = pre @ JObject kvs # rest" and
        ok: "\<forall>x \<in> set pre. \<exists>kvs' r. x = JObject kvs' \<and> schema kvs' = Some r" and
        no: "schema kvs = None"
        by blast
      show "?rhs xs"
      proof (cases pre)
        case Nil
        with eq x no show ?thesis by simp
      next
        case (Cons p ps)
        with eq ok have "xs = ps @ JObject kvs # rest \<and>
            (\<forall>x \<in> set ps. \<exists>kvs' r. x = JObject kvs' \<and> schema kvs' = Some r)"
          by simp
        with no show ?thesis by blast
      qed
    next
      assume "?rhs xs"
      then obtain pre kvs rest where
        eq: "xs = pre @ JObject kvs # rest" and
        ok: "\<forall>x \<in> set pre. \<exists>kvs' r. x = JObject kvs' \<and> schema kvs' = Some r" and
        no: "schema kvs = None"
        by blast
      from eq ok x have "x # xs = (x # pre) @ JObject kvs # rest \<and>
          (\<forall>z \<in> set (x # pre). \<exists>kvs' r. z = JObject kvs' \<and> schema kvs' = Some r)"
        by simp
      with no show "?rhs (x # xs)" by blast
    qed
    with step Cons.IH show ?thesis by simp
  qed
qed

lemma parse_list_ValidationError_iff:
  "parse_list schema resp = Inl ValidationError \<longleftrightarrow> list_rejected schema resp"
proof (cases "json_body resp")
  case None
  then show ?thesis by (simp add: parse_list_def response_json_def list_rejected_def)
next
  case (Some j)
  show ?thesis
  proof (cases "iter_json j")
    case (Inl e)
    then have "e = TypeError" by (cases j) simp_all
    with Some Inl show ?thesis by (simp add: parse_list_def response_json_def list_rejected_def)
  next
    case (Inr items)
    with Some show ?thesis
      by (simp add: parse_list_def response_json_def list_rejected_def
            comprehension_ValidationError_iff)
  qed
qed

lemma parse_list_Inl_class:
  assumes "parse_list schema resp = Inl e"
  shows "class_of e \<notin> set retry_exceptions"
proof -
  have "e = JSONDecodeError \<or> e = TypeError \<or> e = ValidationError"
  proof (cases "json_body resp")
    case None
    with assms show ?thesis by (simp add: parse_list_def response_json_def)
  next
    case (Some j)
    show ?thesis
    proof (cases "iter_json j")
      case (Inl e')
      then have "e' = TypeError" by (cases j) simp_all
      with Some Inl assms show ?thesis by (simp add: parse_list_def response_json_def)
    next
      case (Inr items)
      with Some assms have "comprehension (construct schema) items = Inl e"
        by (simp add: parse_list_def response_json_def)
      then show ?thesis by (auto dest: comprehension_Inl_cases)
    qed
  qed
  then show ?thesis by (auto simp: retry_exceptions_def)
qed

lemma parse_one_ValidationError_iff:
  "parse_one schema resp = Inl ValidationError \<longleftrightarrow> one_rejected schema resp"
  by (cases "json_body resp")
     (auto simp: parse_one_def response_json_def one_rejected_def construct_ValidationError_iff)

lemma parse_one_Inl_class:
  assumes "parse_one schema resp = Inl e"
  shows "class_of e \<notin> set retry_exceptions"
proof -
  have "e = JSONDecodeError \<or> e = TypeError \<or> e = ValidationError"
    using assms
    by (cases "json_body resp")
       (auto simp: parse_one_def response_json_def dest: construct_Inl_cases)
  then show ?thesis by (auto simp: retry_exceptions_def)
qed

lemma get_league_by_id_eq:
  "get_league_by_id on_exception schema serve self league_id w =
     (let c = bound_call_api on_exception serve self (LIST_LEAGUES_ENDPOINT @ str_int league_id)
                None w
      in (case fst c of Inl e \<Rightarrow> Inl e | Inr response \<Rightarrow> parse_one schema response, snd c))"
  by (simp add: get_league_by_id_def Let_def split: prod.splits sum.splits)

lemma get_counts_eq:
  "get_counts on_exception schema serve self w =
     (let c = bound_call_api on_exception serve self GET_COUNTS_ENDPOINT None w
      in (case fst c of Inl e \<Rightarrow> Inl e | Inr response \<Rightarrow> parse_one schema response, snd c))"
  by (simp add: get_counts_def Let_def split: prod.splits sum.splits)

lemma get_player_by_id_eq:
  "get_player_by_id on_exception schema serve self playter_id w =
     (let c = bound_call_api on_exception serve self (LIST_PLAYERS_ENDPOINT @ str_int playter_id)
                None w
      in (case fst c of Inl e \<Rightarrow> Inl e | Inr response \<Rightarrow> parse_one schema response, snd c))"
  by (simp add: get_player_by_id_def Let_def split: prod.splits sum.splits)

lemma parse_list_array:
  "json_body resp = Some (JArray items) \<Longrightarrow>
   parse_list schema resp = comprehension (construct schema) items"
  by (simp add: parse_list_def response_json_def)

lemma list_leagues_eq:
  "list_leagues on_exception schema serve self skip limit d name w =
     (let c = bound_call_api on_exception serve self LIST_LEAGUES_ENDPOINT
                (Some (list_leagues_params skip limit d name)) w
      in (case fst c of Inl e \<Rightarrow> Inl e | Inr response \<Rightarrow> parse_list schema response, snd c))"
  by (simp add: list_leagues_def Let_def split: prod.splits sum.splits)

lemma list_teams_eq:
  "list_teams on_exception schema serve self skip limit d name league_id w =
     (let c = bound_call_api on_exception serve self LIST_TEAMS_ENDPOINT
                (Some (list_teams_params skip limit d name league_id)) w
      in (case fst c of Inl e \<Rightarrow> Inl e | Inr response \<Rightarrow> parse_list schema response, snd c))"
  by (simp add: list_teams_def Let_def split: prod.splits sum.splits)

lemma list_performances_eq:
  "list_performances on_exception schema serve self skip limit d w =
     (let c = bound_call_api on_exception serve self LIST_PERFORMANCES_ENDPOINT
                (Some (list_performances_params skip limit d)) w
      in (case fst c of Inl e \<Rightarrow> Inl e | Inr response \<Rightarrow> parse_list schema response, snd c))"
  by (simp add: list_performances_def Let_def split: prod.splits sum.splits)

lemma plain_call_responded:
  assumes "self_call_api self = None"
    and "\<And>req. serve (sent w) req = Responded resp"
    and "json_body resp = Some j"
  shows "fst (bound_call_api on_exception serve self api_endpoint api_params w) = Inr resp"
  using assms by (simp add: bound_call_api_plain call_api_eq)

text \<open>
  C5. On a client that was constructed, when the server answers with a JSON array, each
  list method returns the records \<open>records\<close> exactly when every element of the array,
  taken in the array's order, is a mapping that the schema parses into the record at
  the same position: one record per element, none moved, none dropped.
\<close>

theorem list_methods_one_record_per_element_in_order:
  assumes "SWCClient_init input_config = Inr self"
    and "\<And>req. serve (sent w) req = Responded resp"
    and "json_body resp = Some (JArray items)"
  shows
    "(fst (list_leagues on_exception League serve self skip limit d league_name w) = Inr leagues
        \<longleftrightarrow> one_record_per_element League items leagues) \<and>
     (fst (list_teams on_exception Team serve self skip limit d team_name league_id w) = Inr teams
        \<longleftrightarrow> one_record_per_element Team items teams) \<and>
     (fst (list_performances on_exception Performance serve self skip limit d w) = Inr performances
        \<longleftrightarrow> one_record_per_element Performance items performances)"
proof -
  note plain = init_Inr_fields(1) [OF assms(1)]
  have call: "fst (bound_call_api on_exception serve self api_endpoint api_params w) = Inr resp"
    for api_endpoint api_params
    using plain assms(2) assms(3) by (rule plain_call_responded)
  have "fst (list_leagues on_exception League serve self skip limit d league_name w) =
          comprehension (construct League) items"
    by (simp add: list_leagues_eq Let_def call parse_list_array [OF assms(3)])
  moreover have "fst (list_teams on_exception Team serve self skip limit d team_name league_id w) =
          comprehension (construct Team) items"
    by (simp add: list_teams_eq Let_def call parse_list_array [OF assms(3)])
  moreover have "fst (list_performances on_exception Performance serve self skip limit d w) =
          comprehension (construct Performance) items"
    by (simp add: list_performances_eq Let_def call parse_list_array [OF assms(3)])
  ultimately show ?thesis
    by (simp add: comprehension_construct_iff)
qed

theorem list_methods_one_record_per_element_in_order_witness:
  "SWCClient_init config_plain = Inr client_plain \<and>
   (\<forall>req. server_two_leagues (sent world0) req = Responded response_two_leagues) \<and>
   json_body response_two_leagues =
     Some (JArray [JObject [(''league_id'', JNum 5002)], JObject [(''league_id'', JNum 5001)]]) \<and>
   fst (list_leagues retry_once id_schema server_two_leagues client_plain None None None None
          world0) = Inr [5002, 5001] \<and>
   one_record_per_element id_schema
     [JObject [(''league_id'', JNum 5002)], JObject [(''league_id'', JNum 5001)]] [5002, 5001]"
proof -
  have i: "SWCClient_init config_plain = Inr client_plain" by (rule init_config_plain)
  have s: "\<And>req. server_two_leagues (sent world0) req = Responded response_two_leagues"
    by (simp add: server_two_leagues_def)
  have j: "json_body response_two_leagues =
     Some (JArray [JObject [(''league_id'', JNum 5002)], JObject [(''league_id'', JNum 5001)]])"
    by (simp add: response_two_leagues_def)
  have c: "fst (list_leagues retry_once id_schema server_two_leagues client_plain None None None
                  None world0) = Inr [5002, 5001]"
    by (simp add: list_leagues_eq Let_def bound_call_api_def client_plain_def call_api_eq
          server_two_leagues_def response_two_leagues_def parse_list_def response_json_def
          construct_def id_schema_def)
  from list_methods_one_record_per_element_in_order
         [where input_config = config_plain and self = client_plain
            and serve = server_two_leagues and w = world0 and resp = response_two_leagues
            and on_exception = retry_once and League = id_schema and skip = None
            and limit = None and d = None and league_name = None and leagues = "[5002, 5001]",
          OF i s j] c
  have "one_record_per_element id_schema
     [JObject [(''league_id'', JNum 5002)], JObject [(''league_id'', JNum 5001)]] [5002, 5001]"
    by blast
  with i s j c show ?thesis by blast
qed

lemma plain_call_world:
  assumes "self_call_api self = None"
  shows "sent (snd (bound_call_api on_exception serve self api_endpoint (Some ps) w)) =
           sent w @ [\<lparr>req_base_url = self_swc_base_url self, req_url = api_endpoint,
                      req_params = Some (filter (\<lambda>(key, val). val \<noteq> PNone) ps),
                      req_follow_redirects = False\<rparr>]"
  using assms by (simp add: bound_call_api_plain call_api_eq drop_none_Some api_request_def)

text \<open>
  C7. The record constructors run in the endpoint method, after \<open>self.call_api\<close> has
  returned. So for every retry decorator installed on \<open>call_api\<close> and each of the six
  methods that build records: the method ends in the world its one call left, it
  raises \<open>ValidationError\<close> exactly when the schema rejects a mapping of the body, and no
  exception of the mapping step is of a class in the tuple of line 60, which names
  \<open>RequestError\<close> and \<open>HTTPStatusError\<close> and nothing else.
\<close>

theorem validation_failure_is_not_retried:
  assumes "\<And>api_endpoint api_params.
             fst (bound_call_api on_exception serve self api_endpoint api_params w) = Inr resp"
  shows
    "raised_outside_retry
       (list_leagues on_exception League serve self skip limit d league_name w)
       (bound_call_api on_exception serve self LIST_LEAGUES_ENDPOINT
          (Some (list_leagues_params skip limit d league_name)) w)
       (list_rejected League resp) \<and>
     raised_outside_retry
       (list_teams on_exception Team serve self skip limit d team_name league_id w)
       (bound_call_api on_exception serve self LIST_TEAMS_ENDPOINT
          (Some (list_teams_params skip limit d team_name league_id)) w)
       (list_rejected Team resp) \<and>
     raised_outside_retry
       (list_performances on_exception Performance serve self skip limit d w)
       (bound_call_api on_exception serve self LIST_PERFORMANCES_ENDPOINT
          (Some (list_performances_params skip limit d)) w)
       (list_rejected Performance resp) \<and>
     raised_outside_retry
       (get_league_by_id on_exception League serve self ident w)
       (bound_call_api on_exception serve self (LIST_LEAGUES_ENDPOINT @ str_int ident) None w)
       (one_rejected League resp) \<and>
     raised_outside_retry
       (get_counts on_exception Counts serve self w)
       (bound_call_api on_exception serve self GET_COUNTS_ENDPOINT None w)
       (one_rejected Counts resp) \<and>
     raised_outside_retry
       (get_player_by_id on_exception Player serve self ident w)
       (bound_call_api on_exception serve self (LIST_PLAYERS_ENDPOINT @ str_int ident) None w)
       (one_rejected Player resp) \<and>
     class_of ValidationError \<notin> set retry_exceptions \<and>
     (\<forall>e. class_of e \<in> set retry_exceptions \<longleftrightarrow>
        (\<exists>msg. e = RequestError msg) \<or> (\<exists>code body. e = HTTPStatusError code body))"
proof -
  have cls: "class_of e \<in> set retry_exceptions \<longleftrightarrow>
        (\<exists>msg. e = RequestError msg) \<or> (\<exists>code body. e = HTTPStatusError code body)" for e
    by (cases e) (simp_all add: retry_exceptions_def)
  have ve: "class_of ValidationError \<notin> set retry_exceptions"
    by (simp add: retry_exceptions_def)
  have l1: "raised_outside_retry
       (list_leagues on_exception League serve self skip limit d league_name w)
       (bound_call_api on_exception serve self LIST_LEAGUES_ENDPOINT
          (Some (list_leagues_params skip limit d league_name)) w)
       (list_rejected League resp)"
    by (simp add: raised_outside_retry_def list_leagues_eq Let_def assms
          parse_list_ValidationError_iff parse_list_Inl_class)
  have l2: "raised_outside_retry
       (list_teams on_exception Team serve self skip limit d team_name league_id w)
       (bound_call_api on_exception serve self LIST_TEAMS_ENDPOINT
          (Some (list_teams_params skip limit d team_name league_id)) w)
       (list_rejected Team resp)"
    by (simp add: raised_outside_retry_def list_teams_eq Let_def assms
          parse_list_ValidationError_iff parse_list_Inl_class)
  have l3: "raised_outside_retry
       (list_performances on_exception Performance serve self skip limit d w)
       (bound_call_api on_exception serve self LIST_PERFORMANCES_ENDPOINT
          (Some (list_performances_params skip limit d)) w)
       (list_rejected Performance resp)"
    by (simp add: raised_outside_retry_def list_performances_eq Let_def assms
          parse_list_ValidationError_iff parse_list_Inl_class)
  have s1: "raised_outside_retry
       (get_league_by_id on_exception League serve self ident w)
       (bound_call_api on_exception serve self (LIST_LEAGUES_ENDPOINT @ str_int ident) None w)
       (one_rejected League resp)"
    by (simp add: raised_outside_retry_def get_league_by_id_eq Let_def assms
          parse_one_ValidationError_iff parse_one_Inl_class)
  have s2: "raised_outside_retry
       (get_counts on_exception Counts serve self w)
       (bound_call_api on_exception serve self GET_COUNTS_ENDPOINT None w)
       (one_rejected Counts resp)"
    by (simp add: raised_outside_retry_def get_counts_eq Let_def assms
          parse_one_ValidationError_iff parse_one_Inl_class)
  have s3: "raised_outside_retry
       (get_player_by_id on_exception Player serve self ident w)
       (bound_call_api on_exception serve self (LIST_PLAYERS_ENDPOINT @ str_int ident) None w)
       (one_rejected Player resp)"
    by (simp add: raised_outside_retry_def get_player_by_id_eq Let_def assms
          parse_one_ValidationError_iff parse_one_Inl_class)
  from l1 l2 l3 s1 s2 s3 ve cls show ?thesis by blast
qed

theorem validation_failure_is_not_retried_witness:
  "(\<forall>api_endpoint api_params.
      fst (bound_call_api retry_once server_bad_league client_retrying api_endpoint api_params
             world0) = Inr response_bad_league) \<and>
   (\<forall>api_endpoint api_params.
      fst (bound_call_api retry_once server_bad_object client_retrying api_endpoint api_params
             world0) = Inr response_bad_object) \<and>
   self_call_api client_retrying \<noteq> None \<and>
   list_rejected id_schema response_bad_league \<and>
   one_rejected id_schema response_bad_object \<and>
   list_leagues retry_once id_schema server_bad_league client_retrying None None None None world0 =
     (Inl ValidationError,
      \<lparr>sent = [api_request client_retrying LIST_LEAGUES_ENDPOINT
                 (Some [(''skip'', PInt 0), (''limit'', PInt 100)])],
       slept = []\<rparr>) \<and>
   get_counts retry_once id_schema server_bad_object client_retrying world0 =
     (Inl ValidationError,
      \<lparr>sent = [api_request client_retrying GET_COUNTS_ENDPOINT None], slept = []\<rparr>)"
proof -
  have c: "\<And>api_endpoint api_params.
      fst (bound_call_api retry_once server_bad_league client_retrying api_endpoint api_params
             world0) = Inr response_bad_league"
    by (simp add: bound_call_api_def client_retrying_def retry_once_def call_api_eq
          server_bad_league_def response_bad_league_def)
  have c': "\<And>api_endpoint api_params.
      fst (bound_call_api retry_once server_bad_object client_retrying api_endpoint api_params
             world0) = Inr response_bad_object"
    by (simp add: bound_call_api_def client_retrying_def retry_once_def call_api_eq
          server_bad_object_def response_bad_object_def)
  have a: "self_call_api client_retrying \<noteq> None" by (simp add: client_retrying_def)
  have r: "list_rejected id_schema response_bad_league"
    unfolding list_rejected_def response_bad_league_def
    by (intro exI [of _ "JArray [JObject [(''league_id'', JNum 5002)],
                                 JObject [(''name'', JStr ''x'')], JNum 5]"]
              exI [of _ "[JObject [(''league_id'', JNum 5002)],
                          JObject [(''name'', JStr ''x'')], JNum 5]"]
              exI [of _ "[JObject [(''league_id'', JNum 5002)]]"]
              exI [of _ "[(''name'', JStr ''x'')]"]
              exI [of _ "[JNum 5]"])
       (simp add: id_schema_def)
  have r': "one_rejected id_schema response_bad_object"
    by (simp add: one_rejected_def response_bad_object_def id_schema_def)
  have w: "snd (bound_call_api retry_once server_bad_league client_retrying LIST_LEAGUES_ENDPOINT
                  (Some (list_leagues_params None None None None)) world0) =
           \<lparr>sent = [api_request client_retrying LIST_LEAGUES_ENDPOINT
                      (Some [(''skip'', PInt 0), (''limit'', PInt 100)])],
            slept = []\<rparr>"
    by (simp add: bound_call_api_def client_retrying_def retry_once_def call_api_eq
          server_bad_league_def response_bad_league_def world0_def drop_none_def
          list_leagues_params_def default_arg_def opt_str_def)
  have w': "snd (bound_call_api retry_once server_bad_object client_retrying GET_COUNTS_ENDPOINT
                   None world0) =
           \<lparr>sent = [api_request client_retrying GET_COUNTS_ENDPOINT None], slept = []\<rparr>"
    by (simp add: bound_call_api_def client_retrying_def retry_once_def call_api_eq
          server_bad_object_def response_bad_object_def world0_def drop_none_def)
  from validation_failure_is_not_retried
         [where on_exception = retry_once and serve = server_bad_league
            and self = client_retrying and w = world0 and resp = response_bad_league
            and League = id_schema and skip = None and limit = None and d = None
            and league_name = None,
          OF c, THEN conjunct1] r w
  have l: "list_leagues retry_once id_schema server_bad_league client_retrying None None None None
          world0 =
     (Inl ValidationError,
      \<lparr>sent = [api_request client_retrying LIST_LEAGUES_ENDPOINT
                 (Some [(''skip'', PInt 0), (''limit'', PInt 100)])],
       slept = []\<rparr>)"
    by (simp add: raised_outside_retry_def prod_eq_iff)
  from validation_failure_is_not_retried
         [where on_exception = retry_once and serve = server_bad_object
            and self = client_retrying and w = world0 and resp = response_bad_object
            and Counts = id_schema,
          OF c', THEN conjunct2, THEN conjunct2, THEN conjunct2, THEN conjunct2,
          THEN conjunct1] r' w'
  have g: "get_counts retry_once id_schema server_bad_object client_retrying world0 =
     (Inl ValidationError,
      \<lparr>sent = [api_request client_retrying GET_COUNTS_ENDPOINT None], slept = []\<rparr>)"
    by (simp add: raised_outside_retry_def prod_eq_iff)
  from c c' a r r' l g show ?thesis by blast
qed

text \<open>
  C8. On a client that was constructed, each list method sends exactly one request,
  whatever the server answers; its query carries \<open>skip\<close> and \<open>limit\<close> as the caller gave
  them, 0 and 100 where the caller gave none.
\<close>

theorem list_methods_send_one_request_with_skip_and_limit:
  assumes "SWCClient_init input_config = Inr self"
  shows
    "one_paged_request w
       (snd (list_leagues on_exception League serve self skip limit d league_name w))
       (swc_base_url input_config) ''/v0/leagues/''
       (case skip of None \<Rightarrow> 0 | Some s \<Rightarrow> s) (case limit of None \<Rightarrow> 100 | Some l \<Rightarrow> l) \<and>
     one_paged_request w
       (snd (list_teams on_exception Team serve self skip limit d team_name league_id w))
       (swc_base_url input_config) ''/v0/teams/''
       (case skip of None \<Rightarrow> 0 | Some s \<Rightarrow> s) (case limit of None \<Rightarrow> 100 | Some l \<Rightarrow> l) \<and>
     one_paged_request w
       (snd (list_performances on_exception Performance serve self skip limit d w))
       (swc_base_url input_config) ''/v0/performances/''
       (case skip of None \<Rightarrow> 0 | Some s \<Rightarrow> s) (case limit of None \<Rightarrow> 100 | Some l \<Rightarrow> l)"
proof -
  note plain = init_Inr_fields(1) [OF assms]
  note base = init_Inr_fields(2) [OF assms]
  have "one_paged_request w
       (snd (list_leagues on_exception League serve self skip limit d league_name w))
       (swc_base_url input_config) ''/v0/leagues/''
       (case skip of None \<Rightarrow> 0 | Some s \<Rightarrow> s) (case limit of None \<Rightarrow> 100 | Some l \<Rightarrow> l)"
    by (simp add: one_paged_request_def list_leagues_eq Let_def plain_call_world [OF plain] base
          LIST_LEAGUES_ENDPOINT_def list_leagues_params_def default_arg_def)
  moreover have "one_paged_request w
       (snd (list_teams on_exception Team serve self skip limit d team_name league_id w))
       (swc_base_url input_config) ''/v0/teams/''
       (case skip of None \<Rightarrow> 0 | Some s \<Rightarrow> s) (case limit of None \<Rightarrow> 100 | Some l \<Rightarrow> l)"
    by (simp add: one_paged_request_def list_teams_eq Let_def plain_call_world [OF plain] base
          LIST_TEAMS_ENDPOINT_def list_teams_params_def default_arg_def)
  moreover have "one_paged_request w
       (snd (list_performances on_exception Performance serve self skip limit d w))
       (swc_base_url input_config) ''/v0/performances/''
       (case skip of None \<Rightarrow> 0 | Some s \<Rightarrow> s) (case limit of None \<Rightarrow> 100 | Some l \<Rightarrow> l)"
    by (simp add: one_paged_request_def list_performances_eq Let_def plain_call_world [OF plain]
          base LIST_PERFORMANCES_ENDPOINT_def list_performances_params_def default_arg_def)
  ultimately show ?thesis by blast
qed

theorem list_methods_send_one_request_with_skip_and_limit_witness:
  "SWCClient_init config_plain = Inr client_plain \<and>
   one_paged_request world0
     (snd (list_performances retry_once id_schema server_down client_plain None (Some 200) None
             world0))
     ''http://0.0.0.0:8000'' ''/v0/performances/'' 0 200 \<and>
   one_paged_request world0
     (snd (list_leagues retry_once id_schema server_two_leagues client_plain None None None None
             world0))
     ''http://0.0.0.0:8000'' ''/v0/leagues/'' 0 100"
proof -
  have b: "swc_base_url config_plain = ''http://0.0.0.0:8000''" by (simp add: config_plain_def)
  from list_methods_send_one_request_with_skip_and_limit
         [where input_config = config_plain and self = client_plain and w = world0
            and on_exception = retry_once and Performance = id_schema and serve = server_down
            and skip = None and limit = "Some 200" and d = None,
          OF init_config_plain, THEN conjunct2, THEN conjunct2]
  have p: "one_paged_request world0
     (snd (list_performances retry_once id_schema server_down client_plain None (Some 200) None
             world0))
     ''http://0.0.0.0:8000'' ''/v0/performances/'' 0 200"
    by (simp add: b)
  from list_methods_send_one_request_with_skip_and_limit
         [where input_config = config_plain and self = client_plain and w = world0
            and on_exception = retry_once and League = id_schema
            and serve = server_two_leagues and skip = None and limit = None and d = None
            and league_name = None,
          OF init_config_plain, THEN conjunct1]
  have l: "one_paged_request world0
     (snd (list_leagues retry_once id_schema server_two_leagues client_plain None None None None
             world0))
     ''http://0.0.0.0:8000'' ''/v0/leagues/'' 0 100"
    by (simp add: b)
  from init_config_plain p l show ?thesis by blast
qed

section \<open>Bulk files\<close>

lemma of_char_lower_char:
  "(of_char (lower_char c) :: nat) =
     (if 65 \<le> (of_char c :: nat) \<and> (of_char c :: nat) \<le> 90 then of_char c + 32 else of_char c)"
  by (simp add: lower_char_def Let_def)

lemma lower_char_eq_small_iff:
  assumes "97 \<le> (of_char l :: nat)" and "(of_char l :: nat) \<le> 122"
    and "(of_char u :: nat) + 32 = of_char l"
  shows "lower_char c = l \<longleftrightarrow> c = l \<or> c = u"
proof -
  have fold: "(if 65 \<le> n \<and> n \<le> 90 then n + 32 else n) = a \<longleftrightarrow> n = a \<or> n = b"
    if "97 \<le> a" "a \<le> 122" "b + 32 = a" for n a b :: nat
    using that by auto
  have "lower_char c = l \<longleftrightarrow> (of_char (lower_char c) :: nat) = of_char l"
    by (simp only: of_char_eq_iff)
  also have "\<dots> \<longleftrightarrow> (of_char c :: nat) = of_char l \<or> (of_char c :: nat) = of_char u"
    unfolding of_char_lower_char by (rule fold [OF assms])
  also have "\<dots> \<longleftrightarrow> c = l \<or> c = u"
    by (simp only: of_char_eq_iff)
  finally show ?thesis .
qed

lemma lower_char_parquet_letters:
  "lower_char c = CHR ''p'' \<longleftrightarrow> c = CHR ''p'' \<or> c = CHR ''P''"
  "lower_char c = CHR ''a'' \<longleftrightarrow> c = CHR ''a'' \<or> c = CHR ''A''"
  "lower_char c = CHR ''r'' \<longleftrightarrow> c = CHR ''r'' \<or> c = CHR ''R''"
  "lower_char c = CHR ''q'' \<longleftrightarrow> c = CHR ''q'' \<or> c = CHR ''Q''"
  "lower_char c = CHR ''u'' \<longleftrightarrow> c = CHR ''u'' \<or> c = CHR ''U''"
  "lower_char c = CHR ''e'' \<longleftrightarrow> c = CHR ''e'' \<or> c = CHR ''E''"
  "lower_char c = CHR ''t'' \<longleftrightarrow> c = CHR ''t'' \<or> c = CHR ''T''"
  by (rule lower_char_eq_small_iff; simp)+

lemma lower_eq_parquet_iff: "lower s = ''parquet'' \<longleftrightarrow> parquet_ignoring_case s"
proof -
  have "lower s = ''parquet'' \<longleftrightarrow> list_all2 (\<lambda>c l. lower_char c = l) s ''parquet''"
    by (simp add: lower_def list_all2_conv_all_nth list_eq_iff_nth_eq)
  also have "\<dots> \<longleftrightarrow> parquet_ignoring_case s"
    by (simp add: parquet_ignoring_case_def list_all2_Cons2 lower_char_parquet_letters)
  finally show ?thesis .
qed

text \<open>
  C10. The constructor compares the format with \<open>parquet\<close> ignoring case: each of the 128
  spellings of \<open>parquet\<close> in small and capital letters gives the five names the extension
  \<open>.parquet\<close>; every other value, a valid \<open>csv\<close> or not, gives them \<open>.csv\<close>.
\<close>

theorem bulk_file_names_extension:
  assumes "SWCClient_init input_config = Inr self"
  shows "self_BULK_FILE_NAMES self =
     (if parquet_ignoring_case (swc_bulk_file_format input_config)
      then [(''players'', ''player_data.parquet''),
            (''leagues'', ''league_data.parquet''),
            (''performances'', ''performance_data.parquet''),
            (''teams'', ''team_data.parquet''),
            (''team_players'', ''team_player_data.parquet'')]
      else [(''players'', ''player_data.csv''),
            (''leagues'', ''league_data.csv''),
            (''performances'', ''performance_data.csv''),
            (''teams'', ''team_data.csv''),
            (''team_players'', ''team_player_data.csv'')])"
  by (simp add: init_Inr_fields(3) [OF assms] BULK_FILE_NAMES_initial_def lower_eq_parquet_iff)

theorem bulk_file_names_extension_witness:
  "(\<exists>self. SWCClient_init config_parquet = Inr self \<and>
      swc_bulk_file_format config_parquet = ''PaRqUeT'' \<and>
      self_BULK_FILE_NAMES self =
        [(''players'', ''player_data.parquet''),
         (''leagues'', ''league_data.parquet''),
         (''performances'', ''performance_data.parquet''),
         (''teams'', ''team_data.parquet''),
         (''team_players'', ''team_player_data.parquet'')]) \<and>
   (\<exists>self. SWCClient_init config_PARQUET = Inr self \<and>
      swc_bulk_file_format config_PARQUET = ''PARQUET'' \<and>
      self_BULK_FILE_NAMES self =
        [(''players'', ''player_data.parquet''),
         (''leagues'', ''league_data.parquet''),
         (''performances'', ''performance_data.parquet''),
         (''teams'', ''team_data.parquet''),
         (''team_players'', ''team_player_data.parquet'')]) \<and>
   (\<exists>self. SWCClient_init config_json = Inr self \<and>
      swc_bulk_file_format config_json = ''json'' \<and>
      self_BULK_FILE_NAMES self =
        [(''players'', ''player_data.csv''),
         (''leagues'', ''league_data.csv''),
         (''performances'', ''performance_data.csv''),
         (''teams'', ''team_data.csv''),
         (''team_players'', ''team_player_data.csv'')])"
proof -
  obtain p where p: "SWCClient_init config_parquet = Inr p"
    using init_plain [of config_parquet] by (simp add: config_parquet_def)
  obtain q where q: "SWCClient_init config_PARQUET = Inr q"
    using init_plain [of config_PARQUET] by (simp add: config_PARQUET_def)
  obtain j where j: "SWCClient_init config_json = Inr j"
    using init_plain [of config_json] by (simp add: config_json_def)
  have fp: "swc_bulk_file_format config_parquet = ''PaRqUeT''" by (simp add: config_parquet_def)
  have fq: "swc_bulk_file_format config_PARQUET = ''PARQUET''" by (simp add: config_PARQUET_def)
  have fj: "swc_bulk_file_format config_json = ''json''" by (simp add: config_json_def)
  from bulk_file_names_extension [OF p]
  have np: "self_BULK_FILE_NAMES p =
        [(''players'', ''player_data.parquet''),
         (''leagues'', ''league_data.parquet''),
         (''performances'', ''performance_data.parquet''),
         (''teams'', ''team_data.parquet''),
         (''team_players'', ''team_player_data.parquet'')]"
    by (simp add: fp parquet_ignoring_case_def)
  from bulk_file_names_extension [OF q]
  have nq: "self_BULK_FILE_NAMES q =
        [(''players'', ''player_data.parquet''),
         (''leagues'', ''league_data.parquet''),
         (''performances'', ''performance_data.parquet''),
         (''teams'', ''team_data.parquet''),
         (''team_players'', ''team_player_data.parquet'')]"
    by (simp add: fq parquet_ignoring_case_def)
  from bulk_file_names_extension [OF j]
  have nj: "self_BULK_FILE_NAMES j =
        [(''players'', ''player_data.csv''),
         (''leagues'', ''league_data.csv''),
         (''performances'', ''performance_data.csv''),
         (''teams'', ''team_data.csv''),
         (''team_players'', ''team_player_data.csv'')]"
    by (simp add: fj parquet_ignoring_case_def)
  from p q j fp fq fj np nq nj show ?thesis by blast
qed

lemma bulk_names_lookup:
  assumes "SWCClient_init input_config = Inr self"
  shows "\<exists>name. dict_get (self_BULK_FILE_NAMES self) ''players'' = Inr name"
    and "\<exists>name. dict_get (self_BULK_FILE_NAMES self) ''leagues'' = Inr name"
    and "\<exists>name. dict_get (self_BULK_FILE_NAMES self) ''performances'' = Inr name"
    and "\<exists>name. dict_get (self_BULK_FILE_NAMES self) ''teams'' = Inr name"
    and "\<exists>name. dict_get (self_BULK_FILE_NAMES self) ''team_players'' = Inr name"
  by (simp_all add: init_Inr_fields(3) [OF assms] BULK_FILE_NAMES_initial_def dict_get_def)

lemma httpx_get_responded:
  "serve (sent w) \<lparr>req_base_url = [], req_url = url, req_params = None,
                   req_follow_redirects = True\<rparr> = Responded resp \<Longrightarrow>
   httpx_get serve url w =
     (Inr resp, w\<lparr>sent := sent w @ [\<lparr>req_base_url = [], req_url = url, req_params = None,
                                       req_follow_redirects = True\<rparr>]\<rparr>)"
  by (simp add: httpx_get_def send_eq)

text \<open>
  C6. On a client that was constructed, when the file host answers the download with a
  response, each of the five bulk methods returns normally: the body when the status
  is 200, \<open>None\<close> for every other status.
\<close>

theorem bulk_methods_body_on_200_else_None:
  assumes "SWCClient_init input_config = Inr self"
    and "\<And>req. serve (sent w) req = Responded resp"
  shows
    "fst (get_bulk_player_file serve self w) = Inr (body_if_200 resp) \<and>
     fst (get_bulk_league_file serve self w) = Inr (body_if_200 resp) \<and>
     fst (get_bulk_performance_file serve self w) = Inr (body_if_200 resp) \<and>
     fst (get_bulk_team_file serve self w) = Inr (body_if_200 resp) \<and>
     fst (get_bulk_team_player_file serve self w) = Inr (body_if_200 resp) \<and>
     (status_code resp = 200 \<longrightarrow> body_if_200 resp = Some (content resp)) \<and>
     (status_code resp \<noteq> 200 \<longrightarrow> body_if_200 resp = None)"
proof -
  have get: "httpx_get serve url w =
     (Inr resp, w\<lparr>sent := sent w @ [\<lparr>req_base_url = [], req_url = url, req_params = None,
                                       req_follow_redirects = True\<rparr>]\<rparr>)" for url
    by (rule httpx_get_responded) (rule assms(2))
  have "fst (get_bulk_player_file serve self w) = Inr (body_if_200 resp)"
    using bulk_names_lookup(1) [OF assms(1)]
    by (auto simp: get_bulk_player_file_def body_if_200_def get)
  moreover have "fst (get_bulk_league_file serve self w) = Inr (body_if_200 resp)"
    using bulk_names_lookup(2) [OF assms(1)]
    by (auto simp: get_bulk_league_file_def body_if_200_def get)
  moreover have "fst (get_bulk_performance_file serve self w) = Inr (body_if_200 resp)"
    using bulk_names_lookup(3) [OF assms(1)]
    by (auto simp: get_bulk_performance_file_def body_if_200_def get)
  moreover have "fst (get_bulk_team_file serve self w) = Inr (body_if_200 resp)"
    using bulk_names_lookup(4) [OF assms(1)]
    by (auto simp: get_bulk_team_file_def body_if_200_def get)
  moreover have "fst (get_bulk_team_player_file serve self w) = Inr (body_if_200 resp)"
    using bulk_names_lookup(5) [OF assms(1)]
    by (auto simp: get_bulk_team_player_file_def body_if_200_def get)
  ultimately show ?thesis by (simp add: body_if_200_def)
qed

theorem bulk_methods_body_on_200_else_None_witness:
  "SWCClient_init config_plain = Inr client_plain \<and>
   (\<forall>req. server_file (sent world0) req = Responded response_file) \<and>
   (\<forall>req. server_404 (sent world0) req = Responded response_404) \<and>
   fst (get_bulk_player_file server_file client_plain world0) = Inr (Some ''a,b'') \<and>
   fst (get_bulk_league_file server_404 client_plain world0) = Inr None"
proof -
  have f: "\<And>req. server_file (sent world0) req = Responded response_file"
    by (simp add: server_file_def)
  have n: "\<And>req. server_404 (sent world0) req = Responded response_404"
    by (simp add: server_404_def)
  from bulk_methods_body_on_200_else_None
         [where serve = server_file and resp = response_file, OF init_config_plain f]
  have "fst (get_bulk_player_file server_file client_plain world0) = Inr (Some ''a,b'')"
    by (simp add: response_file_def)
  moreover
  from bulk_methods_body_on_200_else_None
         [where serve = server_404 and resp = response_404, OF init_config_plain n]
  have "fst (get_bulk_league_file server_404 client_plain world0) = Inr None"
    by (simp add: response_404_def)
  ultimately show ?thesis using init_config_plain f n by blast
qed


end
